theory Spec2Isabelle
  imports Complex_Main
begin

section \<open>Data model\<close>

text \<open>
  The order and escrow engine of the marketplace: the Mongoose schemas for sellers,
  products and orders, and the route handlers that create an order, confirm and approve
  a delivery, request a refund and resolve a dispute.

  Conventions of the embedding:
  \<^item> an ObjectId is a natural number, \<open>equals\<close> on ObjectIds is equality;
  \<^item> a \<open>Date\<close> is its number of milliseconds since the epoch, an unset date field is
    \<open>None\<close>; a handler reads the clock once, its argument \<open>now\<close>;
  \<^item> a JavaScript \<open>Number\<close> holding money is the real number it denotes, a quantity is
    an integer; the result of \<open>+\<close> and \<open>*\<close> on two Numbers is the exact result rounded to
    a double, and the rounding is a parameter \<open>fl\<close> of the model (amounts too large for
    a double are outside it);
  \<^item> a collection is a map from ObjectIds to documents; \<open>save\<close> on a document read from
    the database stores it; \<open>save\<close> on a new document validates it first (see
    \<open>save_new_order\<close>) and throws when the validation fails;
  \<^item> an exception inside a handler is caught by its \<open>catch\<close> and answered with status
    500, here \<open>InternalError\<close>;
  \<^item> a handler returns its response (\<open>Inl\<close> the error code, \<open>Inr\<close> the order it
    wrote) together with the database it leaves behind.
  The fields \<open>createdAt\<close>, \<open>updatedAt\<close>, \<open>customerFeedback\<close> and \<open>authenticity\<close> of an
  order are left out, and so is the \<open>orderNumber\<close> of a stored order: none of the
  handlers below reads them.
\<close>

type_synonym oid = nat
type_synonym time = int
type_synonym rounding = "real \<Rightarrow> real"

datatype error =
    ValidationFailed
  | ProductUnavailable
  | InsufficientStock
  | OrderNotFound
  | InvalidStatus
  | RefundNotAllowed
  | DisputeNotFound
  | InternalError

datatype verification_status = VPending | VUnderReview | Verified | Rejected

record seller =
  s_verificationStatus :: verification_status
  s_isActive :: bool

datatype product_status = Active | Inactive | OutOfStock | Discontinued

record product =
  p_name :: string
  p_sellerId :: oid
  p_price :: real
  p_image :: "string option"
  p_stock :: int
  p_sku :: "string option"
  p_status :: product_status

record order_item =
  i_productId :: oid
  i_quantity :: int
  i_price :: real
  i_snapName :: string
  i_snapImage :: "string option"
  i_snapSku :: "string option"

record pricing =
  subtotal :: real
  shippingCost :: real
  tax :: real
  discount :: real
  total :: real
  currency :: string

record address =
  a_name :: string
  a_phone :: string
  a_street :: string
  a_city :: string
  a_division :: string
  a_postalCode :: string

datatype order_status =
    PendingPayment | PaymentConfirmed | Processing | Shipped
  | OutForDelivery | Delivered | Cancelled | Refunded

datatype escrow_status = EPending | Held | ReleasedToSeller | RefundedToCustomer

record escrow =
  e_status :: escrow_status
  holdUntil :: "time option"
  releaseRequested :: "bool option"
  releaseRequestedAt :: "time option"
  customerApproval :: bool
  customerApprovalAt :: "time option"
  autoReleaseAt :: "time option"
  releasedAt :: "time option"
  releasedBy :: "oid option"

datatype payment_status = PayPending | PayCompleted | PayFailed | PayRefunded

record payment =
  pay_method :: string
  pay_status :: payment_status

record shipping =
  trackingNumber :: "string option"
  shippedAt :: "time option"
  deliveredAt :: "time option"

datatype dispute_status = DOpen | DUnderReview | DResolved | DClosed

record dispute =
  isDisputed :: bool
  d_reason :: "string option"
  d_status :: "dispute_status option"
  resolvedBy :: "oid option"
  resolution :: "string option"
  resolvedAt :: "time option"

record refund =
  isRefunded :: bool
  r_reason :: "string option"
  amount :: "real option"
  requestedAt :: "time option"
  approvedAt :: "time option"
  processedAt :: "time option"
  refundMethod :: "string option"
  adminNotes :: "string option"

datatype note_type = NCustomer | NSeller | NAdmin | NSystem

record order_note =
  n_type :: note_type
  n_message :: string
  n_createdBy :: oid
  n_createdAt :: time

record order =
  o_customerId :: oid
  o_sellerId :: oid
  o_items :: "order_item list"
  o_pricing :: pricing
  o_shippingAddress :: address
  o_status :: order_status
  o_escrow :: escrow
  o_payment :: payment
  o_shipping :: shipping
  o_dispute :: dispute
  o_refund :: refund
  o_notes :: "order_note list"

record db =
  products :: "oid \<rightharpoonup> product"
  sellers :: "oid \<rightharpoonup> seller"
  orders :: "oid \<rightharpoonup> order"

section \<open>Order creation\<close>

record item_req =
  productId :: oid
  quantity :: int

record create_req =
  items :: "item_req list"
  shippingAddress :: address
  paymentMethod :: string

text \<open>The express-validator chain of \<open>POST /\<close>.\<close>

definition validate_create :: "create_req \<Rightarrow> bool" where
  "validate_create req \<longleftrightarrow>
     items req \<noteq> [] \<and>
     list_all (\<lambda>it. 1 \<le> quantity it) (items req) \<and>
     a_name (shippingAddress req) \<noteq> [] \<and>
     a_phone (shippingAddress req) \<noteq> [] \<and>
     a_street (shippingAddress req) \<noteq> [] \<and>
     a_city (shippingAddress req) \<noteq> [] \<and>
     a_division (shippingAddress req) \<noteq> [] \<and>
     a_postalCode (shippingAddress req) \<noteq> [] \<and>
     paymentMethod req \<in> set [''stripe'', ''sslcommerz'', ''bkash'', ''nagad'', ''rocket'']"

text \<open>
  \<open>populate({path: 'sellerId', match: {verificationStatus: 'verified', isActive: true}})\<close>:
  the seller document when it exists and matches, \<open>null\<close> otherwise.
\<close>

definition populate_verified :: "db \<Rightarrow> product \<Rightarrow> seller option" where
  "populate_verified d p =
     (case sellers d (p_sellerId p) of
        None \<Rightarrow> None
      | Some s \<Rightarrow> if s_verificationStatus s = Verified \<and> s_isActive s then Some s else None)"

definition snapshot_item :: "product \<Rightarrow> item_req \<Rightarrow> order_item" where
  "snapshot_item p it =
     \<lparr> i_productId = productId it, i_quantity = quantity it, i_price = p_price p,
       i_snapName = p_name p, i_snapImage = p_image p, i_snapSku = p_sku p \<rparr>"

text \<open>
  The loop \<open>for (const item of items)\<close> that validates the products and accumulates
  \<open>subtotal\<close> and \<open>orderItems\<close>; it returns at the first item it rejects. The item total
  \<open>product.price * item.quantity\<close> and the sum \<open>subtotal += itemTotal\<close> are each rounded.
\<close>

fun validate_items ::
  "rounding \<Rightarrow> db \<Rightarrow> item_req list \<Rightarrow> real \<Rightarrow> order_item list
     \<Rightarrow> error + (order_item list \<times> real)" where
  "validate_items fl d [] sub acc = Inr (acc, sub)"
| "validate_items fl d (it # rest) sub acc =
     (case products d (productId it) of
        None \<Rightarrow> Inl ProductUnavailable
      | Some p \<Rightarrow>
          if p_status p \<noteq> Active \<or> populate_verified d p = None then Inl ProductUnavailable
          else if p_stock p < quantity it then Inl InsufficientStock
          else validate_items fl d rest (fl (sub + fl (p_price p * of_int (quantity it))))
                 (acc @ [snapshot_item p it]))"

text \<open>
  \<open>Product.findByIdAndUpdate(id, {$inc: {stock: -quantity}})\<close>: no document, no change;
  update validators do not run.
\<close>

definition inc_stock :: "(oid \<rightharpoonup> product) \<Rightarrow> oid \<Rightarrow> int \<Rightarrow> (oid \<rightharpoonup> product)" where
  "inc_stock ps pid n =
     (case ps pid of None \<Rightarrow> ps | Some p \<Rightarrow> ps(pid \<mapsto> p\<lparr>p_stock := p_stock p + n\<rparr>))"

fun reserve_stock :: "(oid \<rightharpoonup> product) \<Rightarrow> order_item list \<Rightarrow> (oid \<rightharpoonup> product)" where
  "reserve_stock ps [] = ps"
| "reserve_stock ps (it # rest) = reserve_stock (inc_stock ps (i_productId it) (- i_quantity it)) rest"

definition shipping_for :: "real \<Rightarrow> real" where
  "shipping_for sub = (if sub > 1000 then 0 else 60)"

text \<open>
  \<open>new Order({...})\<close> with the handler's \<open>shippingCost\<close>, \<open>tax\<close> and
  \<open>total = subtotal + shippingCost + tax\<close>; the fields the handler does not give take
  their schema defaults.
\<close>

definition new_order ::
  "rounding \<Rightarrow> oid \<Rightarrow> oid \<Rightarrow> order_item list \<Rightarrow> real \<Rightarrow> create_req \<Rightarrow> order" where
  "new_order fl uid sid its sub req =
     \<lparr> o_customerId = uid,
       o_sellerId = sid,
       o_items = its,
       o_pricing = \<lparr> subtotal = sub, shippingCost = shipping_for sub, tax = 0, discount = 0,
                     total = fl (fl (sub + shipping_for sub) + 0), currency = ''BDT'' \<rparr>,
       o_shippingAddress = shippingAddress req,
       o_status = PendingPayment,
       o_escrow = \<lparr> e_status = EPending, holdUntil = None, releaseRequested = None,
                    releaseRequestedAt = None, customerApproval = False,
                    customerApprovalAt = None, autoReleaseAt = None, releasedAt = None,
                    releasedBy = None \<rparr>,
       o_payment = \<lparr> pay_method = paymentMethod req, pay_status = PayPending \<rparr>,
       o_shipping = \<lparr> trackingNumber = None, shippedAt = None, deliveredAt = None \<rparr>,
       o_dispute = \<lparr> isDisputed = False, d_reason = None, d_status = None, resolvedBy = None,
                     resolution = None, resolvedAt = None \<rparr>,
       o_refund = \<lparr> isRefunded = False, r_reason = None, amount = None, requestedAt = None,
                    approvedAt = None, processedAt = None, refundMethod = None,
                    adminNotes = None \<rparr>,
       o_notes = [] \<rparr>"

text \<open>
  \<open>order.save()\<close> on the new document. Mongoose validates a document before it runs the
  schema's own \<open>pre('save')\<close> hooks. The path \<open>orderNumber\<close> is \<open>required\<close>, and the only
  place that assigns it is the \<open>pre('save')\<close> hook of the order schema, which a failed
  validation never reaches. \<open>save_new_order\<close> is given the \<open>orderNumber\<close> the document
  has when \<open>save\<close> is called; its result \<open>None\<close> is the thrown \<open>ValidationError\<close>.
\<close>

definition validate_new_order :: "string option \<Rightarrow> bool" where
  "validate_new_order orderNumber \<longleftrightarrow> orderNumber \<noteq> None"

definition save_new_order :: "oid \<Rightarrow> string option \<Rightarrow> order \<Rightarrow> db \<Rightarrow> db option" where
  "save_new_order new_id orderNumber ord d =
     (if validate_new_order orderNumber
      then Some (d\<lparr>orders := (orders d)(new_id \<mapsto> ord)\<rparr>)
      else None)"

text \<open>
  \<open>router.post('/')\<close>. \<open>new_id\<close> is the \<open>_id\<close> of the new document, \<open>uid\<close> the
  authenticated customer. The handler builds the order without an \<open>orderNumber\<close>, so the
  document it saves has none. The stock is decremented after the save, in a loop the
  handler reaches only when the save has not thrown.
\<close>

definition createOrder ::
  "rounding \<Rightarrow> oid \<Rightarrow> oid \<Rightarrow> create_req \<Rightarrow> db \<Rightarrow> (error + order) \<times> db" where
  "createOrder fl new_id uid req d =
     (if \<not> validate_create req then (Inl ValidationFailed, d)
      else case validate_items fl d (items req) 0 [] of
        Inl e \<Rightarrow> (Inl e, d)
      | Inr (orderItems, sub) \<Rightarrow>
          (case items req of
             [] \<Rightarrow> (Inl InternalError, d)
           | it0 # _ \<Rightarrow>
               (case products d (productId it0) of
                  None \<Rightarrow> (Inl InternalError, d)
                | Some firstProduct \<Rightarrow>
                    (case sellers d (p_sellerId firstProduct) of
                       None \<Rightarrow> (Inl InternalError, d)
                     | Some _ \<Rightarrow>
                         (let ord = new_order fl uid (p_sellerId firstProduct) orderItems sub req
                          in case save_new_order new_id None ord d of
                               None \<Rightarrow> (Inl InternalError, d)
                             | Some d1 \<Rightarrow>
                                 (Inr ord,
                                  d1\<lparr>products := reserve_stock (products d1) orderItems\<rparr>))))))"


section \<open>Delivery confirmation and the auto-release date\<close>

text \<open>
  \<open>process.env.ESCROW_HOLD_DAYS\<close> is a string when the variable is set. The model takes
  its text to consist of decimal digits (a list of digits, possibly empty); \<open>None\<close> is
  the unset variable.
\<close>

datatype digit = D0 | D1 | D2 | D3 | D4 | D5 | D6 | D7 | D8 | D9

fun digit_val :: "digit \<Rightarrow> nat" where
  "digit_val D0 = 0" | "digit_val D1 = 1" | "digit_val D2 = 2" | "digit_val D3 = 3"
| "digit_val D4 = 4" | "digit_val D5 = 5" | "digit_val D6 = 6" | "digit_val D7 = 7"
| "digit_val D8 = 8" | "digit_val D9 = 9"

definition digit_of :: "nat \<Rightarrow> digit" where
  "digit_of n = [D0, D1, D2, D3, D4, D5, D6, D7, D8, D9] ! (n mod 10)"

text \<open>\<open>String(n)\<close> for a non-negative integer, and \<open>Number(s)\<close> for a digit string.\<close>

fun to_digits :: "nat \<Rightarrow> digit list" where
  "to_digits n = (if n < 10 then [digit_of n] else to_digits (n div 10) @ [digit_of (n mod 10)])"

definition from_digits :: "digit list \<Rightarrow> nat" where
  "from_digits ds = foldl (\<lambda>a c. 10 * a + digit_val c) 0 ds"

text \<open>
  \<open>releaseDate.getDate() + (process.env.ESCROW_HOLD_DAYS || 7)\<close>, as the argument
  \<open>setDate\<close> then converts to a number. An unset variable and the empty string are
  falsy and give the number 7, which \<open>+\<close> adds; any other value is a string, and \<open>+\<close>
  on a number and a string concatenates.
\<close>

definition hold_days_operand :: "nat \<Rightarrow> digit list option \<Rightarrow> nat" where
  "hold_days_operand dayOfMonth env =
     (case env of
        None \<Rightarrow> dayOfMonth + 7
      | Some ds \<Rightarrow> if ds = [] then dayOfMonth + 7 else from_digits (to_digits dayOfMonth @ ds))"

text \<open>
  \<open>setDate(n)\<close> on a date whose day of the month is \<open>dayOfMonth\<close>: the same time of day,
  \<open>n - dayOfMonth\<close> days later (days of 24 hours: no daylight-saving shift in between).
  A \<open>Date\<close> holds a time of at most 8.64e15 milliseconds either side of the epoch; beyond
  that the date is invalid, here \<open>None\<close>. (A digit string too long for \<open>Number\<close> to
  convert exactly denotes a day count far beyond that range, so the exact value decides
  the same way.)
\<close>

definition msPerDay :: int where
  "msPerDay = 1000 * 60 * 60 * 24"

definition maxTime :: int where
  "maxTime = 8640000000000000"

definition setDate :: "time \<Rightarrow> nat \<Rightarrow> nat \<Rightarrow> time option" where
  "setDate t dayOfMonth n =
     (let t' = t + (int n - int dayOfMonth) * msPerDay
      in if \<bar>t'\<bar> \<le> maxTime then Some t' else None)"

text \<open>
  \<open>orderSchema.methods.setEscrowAutoRelease\<close>; \<open>dayOfMonth\<close> is \<open>getDate()\<close> of the
  current date. The result \<open>None\<close> is the order holding an invalid date in
  \<open>escrow.autoReleaseAt\<close>: a document that \<open>save\<close> refuses, since the value does not cast
  to a \<open>Date\<close>.
\<close>

definition setEscrowAutoRelease ::
  "time \<Rightarrow> nat \<Rightarrow> digit list option \<Rightarrow> order \<Rightarrow> order option" where
  "setEscrowAutoRelease now dayOfMonth env ord =
     (if o_status ord = Delivered \<and> autoReleaseAt (o_escrow ord) = None
      then (case setDate now dayOfMonth (hold_days_operand dayOfMonth env) of
              None \<Rightarrow> None
            | Some releaseDate \<Rightarrow>
                Some (ord\<lparr>o_escrow := (o_escrow ord)\<lparr>autoReleaseAt := Some releaseDate\<rparr>\<rparr>))
      else Some ord)"

text \<open>
  \<open>router.patch('/:id/confirm-delivery')\<close>; \<open>sid\<close> is the \<open>_id\<close> of the verified
  seller the middleware attached to the request.
\<close>

definition confirmDelivery ::
  "time \<Rightarrow> nat \<Rightarrow> digit list option \<Rightarrow> oid \<Rightarrow> oid \<Rightarrow> db \<Rightarrow> (error + order) \<times> db" where
  "confirmDelivery now dayOfMonth env sid order_id d =
     (case orders d order_id of
        None \<Rightarrow> (Inl OrderNotFound, d)
      | Some ord \<Rightarrow>
          if o_sellerId ord \<noteq> sid then (Inl OrderNotFound, d)
          else if o_status ord \<noteq> Shipped then (Inl InvalidStatus, d)
          else
            (let o1 = ord\<lparr>o_status := Delivered\<rparr>;
                 o2 = o1\<lparr>o_shipping := (o_shipping o1)\<lparr>deliveredAt := Some now\<rparr>\<rparr>;
                 o3 = o2\<lparr>o_escrow := (o_escrow o2)\<lparr>e_status := Held\<rparr>\<rparr>
             in case setEscrowAutoRelease now dayOfMonth env o3 of
                  None \<Rightarrow> (Inl InternalError, d)
                | Some o4 \<Rightarrow> (Inr o4, d\<lparr>orders := (orders d)(order_id \<mapsto> o4)\<rparr>)))"

section \<open>Buyer approval\<close>

text \<open>\<open>router.patch('/:id/approve-delivery')\<close>; \<open>uid\<close> is the authenticated customer.\<close>

definition approveDelivery :: "time \<Rightarrow> oid \<Rightarrow> oid \<Rightarrow> db \<Rightarrow> (error + order) \<times> db" where
  "approveDelivery now uid order_id d =
     (case orders d order_id of
        None \<Rightarrow> (Inl OrderNotFound, d)
      | Some ord \<Rightarrow>
          if o_customerId ord \<noteq> uid then (Inl OrderNotFound, d)
          else if o_status ord \<noteq> Delivered \<or> e_status (o_escrow ord) \<noteq> Held
            then (Inl InvalidStatus, d)
          else
            (let o1 = ord\<lparr>o_escrow := (o_escrow ord)
                        \<lparr>e_status := ReleasedToSeller, customerApproval := True,
                         customerApprovalAt := Some now, releasedAt := Some now,
                         releasedBy := Some uid\<rparr>\<rparr>
             in (Inr o1, d\<lparr>orders := (orders d)(order_id \<mapsto> o1)\<rparr>)))"

section \<open>Refund requests\<close>

text \<open>
  \<open>canRequestRefund\<close>, with \<open>Date.now()\<close> as the argument \<open>now\<close>. A \<open>Date\<close> object is
  truthy, so \<open>!deliveryDate\<close> holds exactly for the unset field.
\<close>

definition canRequestRefund :: "time \<Rightarrow> order \<Rightarrow> bool" where
  "canRequestRefund now ord =
     (let refundWindow = (30 :: real) in
      case deliveredAt (o_shipping ord) of
        None \<Rightarrow> False
      | Some deliveryDate \<Rightarrow>
          (let daysSinceDelivery = real_of_int (now - deliveryDate) / (1000 * 60 * 60 * 24)
           in daysSinceDelivery \<le> refundWindow \<and> e_status (o_escrow ord) = Held))"

record refund_req =
  rq_reason :: string
  rq_description :: "string option"

text \<open>\<open>description || ''\<close>: an absent or empty description contributes nothing.\<close>

definition refund_note :: "time \<Rightarrow> oid \<Rightarrow> refund_req \<Rightarrow> order_note" where
  "refund_note now uid req =
     \<lparr> n_type = NCustomer,
       n_message = ''Refund requested: '' @ rq_reason req @ ''. '' @
                   (case rq_description req of None \<Rightarrow> [] | Some t \<Rightarrow> t),
       n_createdBy = uid,
       n_createdAt = now \<rparr>"

text \<open>\<open>router.post('/:id/request-refund')\<close>.\<close>

definition requestRefund ::
  "time \<Rightarrow> oid \<Rightarrow> oid \<Rightarrow> refund_req \<Rightarrow> db \<Rightarrow> (error + order) \<times> db" where
  "requestRefund now uid order_id req d =
     (if rq_reason req = [] then (Inl ValidationFailed, d)
      else case orders d order_id of
        None \<Rightarrow> (Inl OrderNotFound, d)
      | Some ord \<Rightarrow>
          if o_customerId ord \<noteq> uid then (Inl OrderNotFound, d)
          else if \<not> canRequestRefund now ord then (Inl RefundNotAllowed, d)
          else
            (let o1 = ord\<lparr>o_refund :=
                        \<lparr> isRefunded = False, r_reason = Some (rq_reason req),
                          amount = Some (total (o_pricing ord)), requestedAt = Some now,
                          approvedAt = None, processedAt = None, refundMethod = None,
                          adminNotes = None \<rparr>\<rparr>;
                 o2 = o1\<lparr>o_notes := o_notes o1 @ [refund_note now uid req]\<rparr>
             in (Inr o2, d\<lparr>orders := (orders d)(order_id \<mapsto> o2)\<rparr>)))"

section \<open>Dispute resolution\<close>

record resolve_req =
  rs_resolution :: string
  rs_refundAmount :: "real option"
  rs_adminNotes :: "string option"

text \<open>The validator chain: a resolution, and a refund amount that is absent or at least 0.\<close>

definition validate_resolve :: "resolve_req \<Rightarrow> bool" where
  "validate_resolve req \<longleftrightarrow>
     rs_resolution req \<noteq> [] \<and>
     (case rs_refundAmount req of None \<Rightarrow> True | Some a \<Rightarrow> 0 \<le> a)"

text \<open>\<open>refundAmount > 0\<close>, false for \<open>undefined\<close>.\<close>

definition refund_requested :: "resolve_req \<Rightarrow> bool" where
  "refund_requested req = (case rs_refundAmount req of None \<Rightarrow> False | Some a \<Rightarrow> a > 0)"

definition resolve_note :: "time \<Rightarrow> oid \<Rightarrow> resolve_req \<Rightarrow> order_note" where
  "resolve_note now admin req =
     \<lparr> n_type = NAdmin,
       n_message = ''Dispute resolved: '' @ rs_resolution req @
                   (case rs_adminNotes req of
                      None \<Rightarrow> []
                    | Some t \<Rightarrow> if t = [] then [] else '' Notes: '' @ t),
       n_createdBy = admin,
       n_createdAt = now \<rparr>"

text \<open>\<open>router.patch('/disputes/:orderId/resolve')\<close>; \<open>admin\<close> is the authenticated admin.\<close>

definition resolveDispute ::
  "time \<Rightarrow> oid \<Rightarrow> oid \<Rightarrow> resolve_req \<Rightarrow> db \<Rightarrow> (error + order) \<times> db" where
  "resolveDispute now admin order_id req d =
     (if \<not> validate_resolve req then (Inl ValidationFailed, d)
      else case orders d order_id of
        None \<Rightarrow> (Inl DisputeNotFound, d)
      | Some ord \<Rightarrow>
          if \<not> isDisputed (o_dispute ord) then (Inl DisputeNotFound, d)
          else
            (let o1 = ord\<lparr>o_dispute := (o_dispute ord)
                        \<lparr>d_status := Some DResolved, resolution := Some (rs_resolution req),
                         resolvedBy := Some admin, resolvedAt := Some now\<rparr>\<rparr>;
                 o2 = (if refund_requested req
                       then o1\<lparr>o_refund :=
                                \<lparr> isRefunded = True,
                                  r_reason = Some ''Admin dispute resolution'',
                                  amount = rs_refundAmount req, requestedAt = Some now,
                                  approvedAt = Some now, processedAt = Some now,
                                  refundMethod = None, adminNotes = rs_adminNotes req \<rparr>,
                              o_escrow := (o_escrow o1)\<lparr>e_status := RefundedToCustomer\<rparr>\<rparr>
                       else o1\<lparr>o_escrow := (o_escrow o1)
                                \<lparr>e_status := ReleasedToSeller, releasedAt := Some now,
                                 releasedBy := Some admin\<rparr>\<rparr>);
                 o3 = o2\<lparr>o_notes := o_notes o2 @ [resolve_note now admin req]\<rparr>
             in (Inr o3, d\<lparr>orders := (orders d)(order_id \<mapsto> o3)\<rparr>)))"

section \<open>Sample data\<close>

text \<open>
  A small database used to run the handlers on concrete requests: two verified, active
  sellers (11 and 12) and one seller still pending verification (13), each with one
  active product.
\<close>

definition ex_sellers :: "oid \<rightharpoonup> seller" where
  "ex_sellers =
     [11 \<mapsto> \<lparr> s_verificationStatus = Verified, s_isActive = True \<rparr>,
      12 \<mapsto> \<lparr> s_verificationStatus = Verified, s_isActive = True \<rparr>,
      13 \<mapsto> \<lparr> s_verificationStatus = VPending, s_isActive = False \<rparr>]"

definition ex_shirt :: product where
  "ex_shirt = \<lparr> p_name = ''Shirt'', p_sellerId = 11, p_price = 500, p_image = None,
                p_stock = 2, p_sku = None, p_status = Active \<rparr>"

definition ex_watch :: product where
  "ex_watch = \<lparr> p_name = ''Watch'', p_sellerId = 12, p_price = 700, p_image = None,
                p_stock = 5, p_sku = None, p_status = Active \<rparr>"

definition ex_mug :: product where
  "ex_mug = \<lparr> p_name = ''Mug'', p_sellerId = 13, p_price = 100, p_image = None,
              p_stock = 10, p_sku = None, p_status = Active \<rparr>"

definition ex_db :: db where
  "ex_db = \<lparr> products = [1 \<mapsto> ex_shirt, 2 \<mapsto> ex_watch, 3 \<mapsto> ex_mug],
             sellers = ex_sellers, orders = Map.empty \<rparr>"

definition ex_address :: address where
  "ex_address = \<lparr> a_name = ''Rahim'', a_phone = ''017'', a_street = ''Road 1'',
                  a_city = ''Dhaka'', a_division = ''Dhaka'', a_postalCode = ''1207'' \<rparr>"

definition ex_req :: "item_req list \<Rightarrow> create_req" where
  "ex_req its = \<lparr> items = its, shippingAddress = ex_address, paymentMethod = ''bkash'' \<rparr>"

text \<open>
  An order of customer 7 with seller 11, parameterised by its status, its escrow status,
  its delivery date and its dispute.
\<close>

definition ex_order ::
  "order_status \<Rightarrow> escrow_status \<Rightarrow> time option \<Rightarrow> bool \<Rightarrow> dispute_status option \<Rightarrow> order" where
  "ex_order st es dl disputed ds =
     (new_order (\<lambda>x. x) 7 11 [snapshot_item ex_shirt \<lparr> productId = 1, quantity = 1 \<rparr>] 500
        (ex_req [\<lparr> productId = 1, quantity = 1 \<rparr>]))
     \<lparr> o_status := st,
       o_escrow := \<lparr> e_status = es, holdUntil = None, releaseRequested = None,
                    releaseRequestedAt = None, customerApproval = False,
                    customerApprovalAt = None, autoReleaseAt = None, releasedAt = None,
                    releasedBy = None \<rparr>,
       o_shipping := \<lparr> trackingNumber = None, shippedAt = None, deliveredAt = dl \<rparr>,
       o_dispute := \<lparr> isDisputed = disputed, d_reason = None, d_status = ds,
                     resolvedBy = None, resolution = None, resolvedAt = None \<rparr> \<rparr>"

definition ex_db_with :: "order \<Rightarrow> db" where
  "ex_db_with ord = ex_db\<lparr>orders := [100 \<mapsto> ord]\<rparr>"

definition ex_resolve :: "real option \<Rightarrow> resolve_req" where
  "ex_resolve a = \<lparr> rs_resolution = ''settled'', rs_refundAmount = a, rs_adminNotes = None \<rparr>"

section \<open>The refund window\<close>

text \<open>
  Claim C7. For every order and every time \<open>now\<close>, \<open>canRequestRefund\<close> is true if and
  only if the order has a recorded delivery timestamp, \<open>now\<close> minus \<open>deliveredAt\<close> is at
  most 30 days, and the escrow status is \<open>held\<close>. So it is false before delivery,
  false once more than 30 days have passed since delivery, and false once the escrow
  has left \<open>held\<close>.
\<close>

theorem canRequestRefund_iff:
  "canRequestRefund now ord \<longleftrightarrow>
     (\<exists>t. deliveredAt (o_shipping ord) = Some t \<and> now - t \<le> 30 * msPerDay)
       \<and> e_status (o_escrow ord) = Held"
  by (auto simp: canRequestRefund_def msPerDay_def split: option.splits)

section \<open>Order creation: the validation loop\<close>

text \<open>
  What the loop over the requested items returns: it rejects the request when one item
  is rejected and accepts it when every item passes, and an accepted item never asks
  for more than the stock of its product.
\<close>

lemma populate_verified_None_iff:
  "populate_verified d p = None \<longleftrightarrow>
     \<not> (\<exists>s. sellers d (p_sellerId p) = Some s \<and> s_verificationStatus s = Verified \<and> s_isActive s)"
  by (auto simp: populate_verified_def split: option.splits)

lemma validate_items_rejects:
  assumes "it \<in> set its" and "products d (productId it) = Some p"
    and "p_status p \<noteq> Active \<or> populate_verified d p = None \<or> p_stock p < quantity it"
  shows "validate_items fl d its sub acc = Inl ProductUnavailable
       \<or> validate_items fl d its sub acc = Inl InsufficientStock"
  using assms
  by (induction its arbitrary: sub acc) (auto split: option.splits)

lemma validate_items_accepts:
  assumes "\<forall>it \<in> set its. \<exists>p. products d (productId it) = Some p \<and> p_status p = Active
             \<and> populate_verified d p \<noteq> None \<and> quantity it \<le> p_stock p"
  shows "\<exists>ois sub'. validate_items fl d its sub acc = Inr (ois, sub')"
  using assms
  by (induction its arbitrary: sub acc) (auto split: option.splits)

lemma validate_items_checked:
  "validate_items fl d its sub acc = Inr (ois, sub') \<Longrightarrow>
     \<exists>new. ois = acc @ new
        \<and> list_all2 (\<lambda>oi it. \<exists>p. products d (productId it) = Some p
                        \<and> oi = snapshot_item p it \<and> quantity it \<le> p_stock p) new its"
proof (induction its arbitrary: sub acc)
  case Nil
  then show ?case by simp
next
  case (Cons it rest)
  from Cons.prems obtain p where p: "products d (productId it) = Some p" "quantity it \<le> p_stock p"
    and rec: "validate_items fl d rest (fl (sub + fl (p_price p * of_int (quantity it))))
                (acc @ [snapshot_item p it]) = Inr (ois, sub')"
    by (auto split: option.splits if_splits)
  from Cons.IH [OF rec] obtain new where
    new: "ois = (acc @ [snapshot_item p it]) @ new"
      "list_all2 (\<lambda>oi it. \<exists>p. products d (productId it) = Some p
                    \<and> oi = snapshot_item p it \<and> quantity it \<le> p_stock p) new rest"
    by blast
  show ?case
    using new p by (intro exI [of _ "snapshot_item p it # new"]) simp
qed

section \<open>Order creation: the save that fails\<close>

text \<open>
  The document the handler saves has no \<open>orderNumber\<close>, so \<open>save_new_order\<close> throws for
  it: the handler never answers with an order, never stores one, and never reaches the
  loop that decrements the stock. Whatever the request, it leaves the database as it
  was.
\<close>

lemma save_new_order_throws:
  "save_new_order new_id None ord d = None"
  by (simp add: save_new_order_def validate_new_order_def)



section \<open>Order creation: all or nothing\<close>

text \<open>
  Claim C4. If some item of a \<open>createOrder\<close> request names a product whose seller is
  not verified and active, or whose status is not \<open>active\<close>, or asks for more than the
  product's stock, then \<open>createOrder\<close> fails and leaves the database as it was: no
  product's stock changes and no order is stored. The error is the one of the first
  rejected item (or \<open>ValidationFailed\<close> when the request itself is malformed).
\<close>

theorem createOrder_all_or_nothing:
  assumes "it \<in> set (items req)" and "products d (productId it) = Some p"
    and "\<not> (\<exists>s. sellers d (p_sellerId p) = Some s \<and> s_verificationStatus s = Verified \<and> s_isActive s)
         \<or> p_status p \<noteq> Active \<or> p_stock p < quantity it"
  shows "\<exists>e. createOrder fl new_id uid req d = (Inl e, d)
           \<and> e \<in> {ValidationFailed, ProductUnavailable, InsufficientStock}"
proof -
  from assms(3) have rej:
    "p_status p \<noteq> Active \<or> populate_verified d p = None \<or> p_stock p < quantity it"
    by (auto simp: populate_verified_None_iff)
  from validate_items_rejects [OF assms(1,2) rej, of fl 0 "[]"]
  show ?thesis
    by (auto simp: createOrder_def)
qed

theorem createOrder_all_or_nothing_witness:
  "createOrder (\<lambda>x. x) 100 7
     (ex_req [\<lparr> productId = 1, quantity = 1 \<rparr>, \<lparr> productId = 3, quantity = 1 \<rparr>]) ex_db
   = (Inl ProductUnavailable, ex_db)"
proof -
  let ?req = "ex_req [\<lparr> productId = 1, quantity = 1 \<rparr>, \<lparr> productId = 3, quantity = 1 \<rparr>]"
  have h: "\<lparr> productId = 3, quantity = 1 \<rparr> \<in> set (items ?req)"
      "products ex_db (productId \<lparr> productId = 3, quantity = 1 \<rparr>) = Some ex_mug"
      "\<not> (\<exists>s. sellers ex_db (p_sellerId ex_mug) = Some s
              \<and> s_verificationStatus s = Verified \<and> s_isActive s)
       \<or> p_status ex_mug \<noteq> Active \<or> p_stock ex_mug < quantity \<lparr> productId = 3, quantity = 1 \<rparr>"
    by (simp_all add: ex_req_def ex_db_def ex_sellers_def ex_mug_def)
  from createOrder_all_or_nothing [OF h, of "\<lambda>x. x" 100 7] obtain e where
    unchanged: "createOrder (\<lambda>x. x) 100 7 ?req ex_db = (Inl e, ex_db)"
    by blast
  have "fst (createOrder (\<lambda>x. x) 100 7 ?req ex_db) = Inl ProductUnavailable"
    by (simp add: createOrder_def validate_create_def populate_verified_def ex_req_def ex_db_def
          ex_sellers_def ex_shirt_def ex_mug_def ex_address_def)
  with unchanged show ?thesis by simp
qed

section \<open>Order creation: the pricing breakdown\<close>


section \<open>Order creation: items of several sellers\<close>

text \<open>
  Claim C10. A request whose items belong to several sellers is to be accepted, and
  stored as one order under the seller of the first item's product. The handler never
  compares the sellers of the items, but it accepts no request at all: every well-formed
  request whose items all pass the checks, of one seller or of several, is answered with
  status 500 and leaves the database as it was, with no order stored.
\<close>

theorem createOrder_rejects_valid_request:
  assumes "validate_create req"
    and "\<forall>it \<in> set (items req). \<exists>p s. products d (productId it) = Some p \<and> p_status p = Active
             \<and> sellers d (p_sellerId p) = Some s \<and> s_verificationStatus s = Verified \<and> s_isActive s
             \<and> quantity it \<le> p_stock p"
  shows "createOrder fl new_id uid req d = (Inl InternalError, d)"
proof -
  from assms(2) have ok: "\<forall>it \<in> set (items req). \<exists>p. products d (productId it) = Some p
             \<and> p_status p = Active \<and> populate_verified d p \<noteq> None \<and> quantity it \<le> p_stock p"
    by (simp add: populate_verified_None_iff) blast
  from validate_items_accepts [OF ok, of fl 0 "[]"] obtain ois sub where
    v: "validate_items fl d (items req) 0 [] = Inr (ois, sub)" by blast
  show ?thesis
    using assms(1) v
    by (simp add: createOrder_def save_new_order_throws Let_def
          split: list.splits option.splits)
qed

theorem createOrder_rejects_valid_request_witness:
  "p_sellerId ex_shirt \<noteq> p_sellerId ex_watch
   \<and> createOrder (\<lambda>x. x) 100 7
       (ex_req [\<lparr> productId = 1, quantity = 2 \<rparr>, \<lparr> productId = 2, quantity = 1 \<rparr>]) ex_db
     = (Inl InternalError, ex_db)
   \<and> orders ex_db 100 = None"
proof -
  let ?req = "ex_req [\<lparr> productId = 1, quantity = 2 \<rparr>, \<lparr> productId = 2, quantity = 1 \<rparr>]"
  have valid: "validate_create ?req"
    by (simp add: validate_create_def ex_req_def ex_address_def)
  have ok: "\<forall>it \<in> set (items ?req). \<exists>p s. products ex_db (productId it) = Some p \<and> p_status p = Active
             \<and> sellers ex_db (p_sellerId p) = Some s \<and> s_verificationStatus s = Verified \<and> s_isActive s
             \<and> quantity it \<le> p_stock p"
    by (simp add: ex_req_def ex_db_def ex_sellers_def ex_shirt_def ex_watch_def)
  from createOrder_rejects_valid_request [OF valid ok, of "\<lambda>x. x" 100 7] show ?thesis
    by (simp add: ex_shirt_def ex_watch_def ex_db_def)
qed

section \<open>Refund requests\<close>

lemmas ex_defs = ex_order_def ex_db_with_def ex_db_def ex_sellers_def ex_shirt_def ex_watch_def
  ex_mug_def ex_req_def ex_address_def ex_resolve_def new_order_def snapshot_item_def

text \<open>
  Claim C8. For an order of the calling customer and a non-empty reason: when
  \<open>canRequestRefund\<close> holds, \<open>requestRefund\<close> stores the order with a pending refund
  record (not refunded, the reason, the order total as amount, requested now, neither
  approved nor processed) and leaves the whole escrow record, the status, the dispute,
  the pricing and the items as they were; when \<open>canRequestRefund\<close> does not hold, it
  fails with \<open>RefundNotAllowed\<close> and the database is unchanged.
\<close>

theorem requestRefund_frame:
  assumes "orders d order_id = Some ord" and "o_customerId ord = uid" and "rq_reason req \<noteq> []"
  shows "if canRequestRefund now ord
         then \<exists>ord'. requestRefund now uid order_id req d
                        = (Inr ord', d\<lparr>orders := (orders d)(order_id \<mapsto> ord')\<rparr>)
                \<and> o_escrow ord' = o_escrow ord
                \<and> o_refund ord' =
                    \<lparr> isRefunded = False, r_reason = Some (rq_reason req),
                      amount = Some (total (o_pricing ord)), requestedAt = Some now,
                      approvedAt = None, processedAt = None, refundMethod = None,
                      adminNotes = None \<rparr>
                \<and> o_status ord' = o_status ord \<and> o_dispute ord' = o_dispute ord
                \<and> o_pricing ord' = o_pricing ord \<and> o_items ord' = o_items ord
         else requestRefund now uid order_id req d = (Inl RefundNotAllowed, d)"
  using assms by (simp add: requestRefund_def Let_def)

theorem requestRefund_frame_witness:
  "canRequestRefund 1000 (ex_order Delivered Held (Some 0) False None)
   \<and> (\<exists>ord'. requestRefund 1000 7 100 \<lparr> rq_reason = ''damaged'', rq_description = None \<rparr>
                (ex_db_with (ex_order Delivered Held (Some 0) False None))
              = (Inr ord', (ex_db_with (ex_order Delivered Held (Some 0) False None))
                             \<lparr>orders := [100 \<mapsto> ord']\<rparr>)
        \<and> e_status (o_escrow ord') = Held
        \<and> isRefunded (o_refund ord') = False \<and> amount (o_refund ord') = Some 560
        \<and> requestedAt (o_refund ord') = Some 1000 \<and> processedAt (o_refund ord') = None)
   \<and> \<not> canRequestRefund 1000 (ex_order Shipped Held None False None)
   \<and> requestRefund 1000 7 100 \<lparr> rq_reason = ''damaged'', rq_description = None \<rparr>
         (ex_db_with (ex_order Shipped Held None False None))
       = (Inl RefundNotAllowed, ex_db_with (ex_order Shipped Held None False None))"
proof -
  let ?rq = "\<lparr> rq_reason = ''damaged'', rq_description = None \<rparr>"
  let ?a = "ex_order Delivered Held (Some 0) False None"
  let ?b = "ex_order Shipped Held None False None"
  have ca: "canRequestRefund 1000 ?a" and cb: "\<not> canRequestRefund 1000 ?b"
    by (simp_all add: canRequestRefund_def ex_order_def)
  have a: "orders (ex_db_with ?a) 100 = Some ?a" "o_customerId ?a = 7" "rq_reason ?rq \<noteq> []"
    by (simp_all add: ex_defs)
  have b: "orders (ex_db_with ?b) 100 = Some ?b" "o_customerId ?b = 7"
    by (simp_all add: ex_defs)
  have pa: "total (o_pricing ?a) = 560" "e_status (o_escrow ?a) = Held"
    by (simp_all add: ex_defs shipping_for_def)
  from requestRefund_frame [OF a, of 1000] requestRefund_frame [OF b a(3), of 1000] ca cb pa
  show ?thesis
    by (auto simp: ex_db_with_def)
qed

section \<open>Dispute resolution and the escrow state machine\<close>

text \<open>
  The guard of \<open>resolveDispute\<close> is the validator chain and \<open>dispute.isDisputed\<close>,
  nothing else: neither \<open>dispute.status\<close> nor \<open>escrow.status\<close> is read. Its effects on
  success are those the specification lists. \<open>approveDelivery\<close>, in contrast, refuses
  every order whose escrow is not \<open>held\<close>.
\<close>

lemma resolveDispute_guard:
  "(\<exists>ord d'. resolveDispute now admin order_id req d = (Inr ord, d')) \<longleftrightarrow>
     validate_resolve req \<and> (\<exists>ord. orders d order_id = Some ord \<and> isDisputed (o_dispute ord))"
  by (auto simp: resolveDispute_def Let_def split: option.splits)

lemma resolveDispute_effects:
  assumes "resolveDispute now admin order_id req d = (Inr ord', d')"
  shows "d_status (o_dispute ord') = Some DResolved
       \<and> (case rs_refundAmount req of
            Some a \<Rightarrow>
              if a > 0
              then e_status (o_escrow ord') = RefundedToCustomer
                 \<and> isRefunded (o_refund ord') \<and> amount (o_refund ord') = Some a
                 \<and> processedAt (o_refund ord') = Some now
              else e_status (o_escrow ord') = ReleasedToSeller
          | None \<Rightarrow> e_status (o_escrow ord') = ReleasedToSeller)"
  using assms
  by (auto simp: resolveDispute_def refund_requested_def Let_def split: option.splits if_splits)

lemma approveDelivery_guard:
  assumes "orders d order_id = Some ord" and "e_status (o_escrow ord) \<noteq> Held"
  shows "approveDelivery now uid order_id d = (Inl OrderNotFound, d)
       \<or> approveDelivery now uid order_id d = (Inl InvalidStatus, d)"
  using assms by (simp add: approveDelivery_def)

text \<open>
  Claim C1. The escrow status is to move only along \<open>pending \<rightarrow> held\<close>,
  \<open>held \<rightarrow> released_to_seller\<close> and \<open>held \<rightarrow> refunded_to_customer\<close>, and an operation
  on an escrow already released or refunded is to fail and change nothing. The handler
  \<open>resolveDispute\<close> does not keep to this: run with a refund of 500 on a disputed order
  whose escrow is already \<open>released_to_seller\<close>, it succeeds and stores the order with
  escrow \<open>refunded_to_customer\<close>.
\<close>

theorem resolveDispute_overwrites_released_escrow:
  "e_status (o_escrow (ex_order Delivered ReleasedToSeller (Some 0) True (Some DOpen)))
     = ReleasedToSeller
   \<and> (\<exists>ord d'. resolveDispute 2000 1 100 (ex_resolve (Some 500))
                  (ex_db_with (ex_order Delivered ReleasedToSeller (Some 0) True (Some DOpen)))
                = (Inr ord, d')
          \<and> orders d' 100 = Some ord
          \<and> e_status (o_escrow ord) = RefundedToCustomer)"
  by (simp add: resolveDispute_def validate_resolve_def refund_requested_def Let_def ex_defs)

text \<open>
  \<open>confirmDelivery\<close> writes \<open>held\<close> without reading the escrow status either: a shipped
  order whose dispute was resolved in the seller's favour goes from
  \<open>released_to_seller\<close> back to \<open>held\<close>.
\<close>

lemma confirmDelivery_reholds_released_escrow:
  "\<exists>ord d'. confirmDelivery 3000 15 None 11 100
               (ex_db_with (ex_order Shipped ReleasedToSeller None True (Some DResolved)))
             = (Inr ord, d')
        \<and> e_status (o_escrow ord) = Held"
  by (simp add: confirmDelivery_def setEscrowAutoRelease_def hold_days_operand_def setDate_def
        msPerDay_def maxTime_def Let_def ex_defs)

text \<open>
  Claim C2. At most one of buyer approval, auto-release and admin resolution is to move
  an order out of \<open>held\<close>, and every later attempt is to fail. On a delivered, disputed
  order with escrow \<open>held\<close>, the buyer's \<open>approveDelivery\<close> succeeds and releases the
  escrow to the seller, and the admin's \<open>resolveDispute\<close> then succeeds as well, at any
  later time and for any valid request: with a positive refund amount the stored order
  ends refunded to the customer, after having been released to the seller.
\<close>

theorem approve_then_resolve_both_succeed:
  assumes "orders d order_id = Some ord" and "o_customerId ord = uid"
    and "o_status ord = Delivered" and "e_status (o_escrow ord) = Held"
    and "isDisputed (o_dispute ord)" and "validate_resolve req"
  shows "\<exists>o1 d1 o2 d2.
           approveDelivery t1 uid order_id d = (Inr o1, d1)
         \<and> e_status (o_escrow o1) = ReleasedToSeller
         \<and> resolveDispute t2 admin order_id req d1 = (Inr o2, d2)
         \<and> e_status (o_escrow o2) =
             (if refund_requested req then RefundedToCustomer else ReleasedToSeller)
         \<and> orders d2 order_id = Some o2"
  using assms by (simp add: approveDelivery_def resolveDispute_def Let_def)

theorem approve_then_resolve_both_succeed_witness:
  "\<exists>o1 d1 o2 d2.
     approveDelivery 1000 7 100 (ex_db_with (ex_order Delivered Held (Some 0) True (Some DOpen)))
       = (Inr o1, d1)
     \<and> e_status (o_escrow o1) = ReleasedToSeller
     \<and> resolveDispute 2000 1 100 (ex_resolve (Some 500)) d1 = (Inr o2, d2)
     \<and> e_status (o_escrow o2) = RefundedToCustomer
     \<and> orders d2 100 = Some o2"
proof -
  let ?ord = "ex_order Delivered Held (Some 0) True (Some DOpen)"
  have h: "orders (ex_db_with ?ord) 100 = Some ?ord" "o_customerId ?ord = 7"
      "o_status ?ord = Delivered" "e_status (o_escrow ?ord) = Held"
      "isDisputed (o_dispute ?ord)" "validate_resolve (ex_resolve (Some 500))"
    by (simp_all add: validate_resolve_def ex_defs)
  have r: "refund_requested (ex_resolve (Some 500))"
    by (simp add: refund_requested_def ex_resolve_def)
  from approve_then_resolve_both_succeed [OF h, of 1000 2000 1] r show ?thesis
    by simp
qed

text \<open>
  Claim C3. \<open>resolveDispute\<close> is to succeed only for a dispute whose status is \<open>open\<close>
  or \<open>under_review\<close>. On an order whose dispute is already \<open>resolved\<close> (and whose escrow
  was refunded to the customer), a second \<open>resolveDispute\<close> without refund succeeds and
  stores the order with escrow \<open>released_to_seller\<close>.
\<close>

theorem resolveDispute_on_resolved_dispute:
  "\<exists>ord d'. resolveDispute 2000 1 100 (ex_resolve None)
               (ex_db_with (ex_order Delivered RefundedToCustomer (Some 0) True (Some DResolved)))
             = (Inr ord, d')
        \<and> e_status (o_escrow ord) = ReleasedToSeller
        \<and> d_status (o_dispute ord) = Some DResolved"
  by (simp add: resolveDispute_def validate_resolve_def refund_requested_def Let_def ex_defs)

section \<open>Stock reservation\<close>



section \<open>Delivery confirmation\<close>

text \<open>
  With \<open>ESCROW_HOLD_DAYS\<close> unset or empty, the seller's \<open>confirmDelivery\<close> on a shipped
  order sets the status \<open>delivered\<close>, the delivery time, the escrow status \<open>held\<close> and
  the auto-release date seven days after the delivery (a date within the range of
  \<open>Date\<close>). A second \<open>confirmDelivery\<close> on
  the order it stored is rejected, and \<open>setEscrowAutoRelease\<close> never replaces a date
  that is set.
\<close>

lemma confirmDelivery_default:
  assumes "orders d order_id = Some ord" and "o_sellerId ord = sid" and "o_status ord = Shipped"
    and "autoReleaseAt (o_escrow ord) = None" and "env = None \<or> env = Some []"
    and "\<bar>now + 7 * msPerDay\<bar> \<le> maxTime"
  shows "\<exists>ord'. confirmDelivery now dayOfMonth env sid order_id d
                  = (Inr ord', d\<lparr>orders := (orders d)(order_id \<mapsto> ord')\<rparr>)
           \<and> o_status ord' = Delivered
           \<and> deliveredAt (o_shipping ord') = Some now
           \<and> e_status (o_escrow ord') = Held
           \<and> autoReleaseAt (o_escrow ord') = Some (now + 7 * msPerDay)"
  using assms
  by (auto simp: confirmDelivery_def setEscrowAutoRelease_def hold_days_operand_def setDate_def
        Let_def)

lemma confirmDelivery_again_rejected:
  assumes "confirmDelivery now dayOfMonth env sid order_id d = (Inr ord, d')"
  shows "confirmDelivery now2 dayOfMonth2 env2 sid2 order_id d' = (Inl OrderNotFound, d')
       \<or> confirmDelivery now2 dayOfMonth2 env2 sid2 order_id d' = (Inl InvalidStatus, d')"
  using assms
  by (auto simp: confirmDelivery_def setEscrowAutoRelease_def Let_def
        split: option.splits if_splits)

lemma setEscrowAutoRelease_keeps_deadline:
  "autoReleaseAt (o_escrow ord) = Some t \<Longrightarrow>
     setEscrowAutoRelease now dayOfMonth env ord = Some ord"
  by (simp add: setEscrowAutoRelease_def)

text \<open>
  Claim C6. \<open>confirmDelivery\<close> is to set \<open>escrow.autoReleaseAt\<close> to the delivery time
  plus \<open>ESCROW_HOLD_DAYS\<close> days. When the variable is set, its value is a string and
  \<open>getDate() + value\<close> concatenates: with \<open>ESCROW_HOLD_DAYS=7\<close> on the 15th of a month
  the handler calls \<open>setDate('157')\<close>, and the auto-release date lies 142 days after the
  delivery, not 7.
\<close>

theorem confirmDelivery_configured_hold_days:
  "\<exists>ord d'. confirmDelivery 0 15 (Some [D7]) 11 100
               (ex_db_with (ex_order Shipped Held None False None))
             = (Inr ord, d')
        \<and> deliveredAt (o_shipping ord) = Some 0
        \<and> autoReleaseAt (o_escrow ord) = Some (142 * msPerDay)
        \<and> autoReleaseAt (o_escrow ord) \<noteq> Some (0 + 7 * msPerDay)"
  by (simp add: confirmDelivery_def setEscrowAutoRelease_def hold_days_operand_def setDate_def
        from_digits_def digit_of_def msPerDay_def maxTime_def Let_def ex_defs)

end
